theory Spec2Isabelle
  imports Complex_Main
begin

section \<open>Data model\<close>

text \<open>
  The framework objects the two tasks receive: an exposure is a masked image (image, mask
  and variance planes over integer pixel coordinates) together with a detector. Pixel
  values are single-precision floats in the code: an element is a real number, an
  infinity or NaN. Which reals a single-precision plane can hold, and how arithmetic on
  them rounds and overflows, is not fixed here: the arithmetic is numpy's and enters the
  model as a parameter. The sign of a zero is not modelled. Linearity coefficients are
  Python floats, taken as finite. A mask pixel is the set of the mask planes set in it.
\<close>

datatype pixel = NaN | PosInf | NegInf | Fin real

type_synonym point = "int \<times> int"

record box2I =
  minX :: int
  minY :: int
  maxX :: int
  maxY :: int

record maskedImage =
  getImage :: "point \<Rightarrow> pixel"
  getMask :: "point \<Rightarrow> string set"
  getVariance :: "point \<Rightarrow> pixel"
  miBBox :: box2I

record amplifier =
  getName :: string
  getBBox :: box2I
  getLinearityType :: string
  getLinearityCoeffs :: "real list"

record detector =
  getId :: int
  amps :: "amplifier list"

record exposure =
  getMaskedImage :: maskedImage
  getDetector :: detector

text \<open>
  All failures of the Python code are exceptions. The messages of the RuntimeErrors are
  kept structured, with the values the code formats into them.
\<close>

datatype rt_msg =
    Coeff1MustBeZero real int string
  | NeedThreeCoeffs nat
  | UnsupportedLinearityType string int string
  | MustBeExecutedOnAmp
  | UnmaskedNaNs int

datatype error =
    RuntimeError rt_msg
  | IndexError
  | ValueError
  | NameError string
  | AttributeError
  | LengthError

datatype log_event = LogDebugNotWanted int | LogInfoApplied int

section \<open>Pixel arithmetic and sub-image views\<close>

text \<open>
  The array expression \<^verbatim>\<open>ampArr *= 1.0 + squareCoeff*ampArr\<close> is three elementwise
  numpy operations: a Python float times an array, a Python float plus an array, and an
  in-place product of two arrays. numpy is not part of the sources: what each operation
  makes of one element (the precision it works in, its rounding, its overflow to an
  infinity, its treatment of NaN) is a parameter of the model.
\<close>

record numpy =
  mulScalar :: "real \<Rightarrow> pixel \<Rightarrow> pixel"
  addScalar :: "real \<Rightarrow> pixel \<Rightarrow> pixel"
  imul :: "pixel \<Rightarrow> pixel \<Rightarrow> pixel"

definition linearizePixel :: "numpy \<Rightarrow> real \<Rightarrow> pixel \<Rightarrow> pixel" where
  "linearizePixel np squareCoeff v =
     imul np v (addScalar np 1 (mulScalar np squareCoeff v))"

definition inBox :: "box2I \<Rightarrow> point \<Rightarrow> bool" where
  "inBox b p = (minX b \<le> fst p \<and> fst p \<le> maxX b \<and> minY b \<le> snd p \<and> snd p \<le> maxY b)"

text \<open>
  \<^verbatim>\<open>afwImage.MaskedImageF(parent, bbox, afwImage.PARENT)\<close> is a view of the parent's
  pixels inside \<open>bbox\<close>: writes through the view are writes to the parent. The framework's
  constructor raises LengthError for a box that does not fit in the parent.
\<close>

definition fitsIn :: "box2I \<Rightarrow> box2I \<Rightarrow> bool" where
  "fitsIn b parent =
     (minX parent \<le> minX b \<and> maxX b \<le> maxX parent \<and>
      minY parent \<le> minY b \<and> maxY b \<le> maxY parent)"

text \<open>
  Modelled from the spec: the framework's threshold search
  \<^verbatim>\<open>FootprintSet(ampImage, Threshold(maxUncorr), "SUSPECT")\<close> is not part of the
  sources; following the task's description (flag pixels as SUSPECT where
  uncorrIm > maxUncorr) it sets the named plane in the mask of every pixel of the view
  whose value is above the threshold. NaN is above nothing, and so is minus infinity.
\<close>

fun aboveThreshold :: "real \<Rightarrow> pixel \<Rightarrow> bool" where
  "aboveThreshold t (Fin v) = (t < v)"
| "aboveThreshold t PosInf = True"
| "aboveThreshold t NegInf = False"
| "aboveThreshold t NaN = False"

definition FootprintSet :: "box2I \<Rightarrow> real \<Rightarrow> string \<Rightarrow> maskedImage \<Rightarrow> maskedImage" where
  "FootprintSet view threshold planeName mi =
     mi\<lparr>getMask := (\<lambda>p. if inBox view p \<and> aboveThreshold threshold (getImage mi p)
                          then insert planeName (getMask mi p) else getMask mi p)\<rparr>"

definition linearizeView :: "numpy \<Rightarrow> box2I \<Rightarrow> real \<Rightarrow> maskedImage \<Rightarrow> maskedImage" where
  "linearizeView np view squareCoeff mi =
     mi\<lparr>getImage := (\<lambda>p. if inBox view p then linearizePixel np squareCoeff (getImage mi p)
                           else getImage mi p)\<rparr>"

section \<open>ProportionalLinearizeTask\<close>

text \<open>\<^verbatim>\<open>doCorrect\<close>: looks at \<^verbatim>\<open>detector[0]\<close> only.\<close>

definition doCorrect :: "detector \<Rightarrow> error + bool" where
  "doCorrect det =
     (case amps det of
        [] \<Rightarrow> Inl IndexError
      | amp # _ \<Rightarrow>
          (let linearityType = getLinearityType amp in
           if linearityType = ''NONE'' then Inr False
           else if linearityType = ''PROPORTIONAL'' then
             (let numCoeffs = length (getLinearityCoeffs amp) in
              if numCoeffs < 3 then Inl (RuntimeError (NeedThreeCoeffs numCoeffs))
              else Inr True)
           else Inl (RuntimeError
                  (UnsupportedLinearityType linearityType (getId det) (getName amp)))))"

text \<open>
  One iteration of the loop over the amplifiers, on the masked image and the flag
  \<^verbatim>\<open>didCorrect\<close>. Every raise of an iteration comes before its first write, so a failing
  iteration leaves the masked image as it found it. Unpacking fewer than three
  coefficients is a ValueError.
\<close>

definition ampBody ::
  "numpy \<Rightarrow> detector \<Rightarrow> amplifier \<Rightarrow> maskedImage \<Rightarrow> bool \<Rightarrow> error + (maskedImage \<times> bool)" where
  "ampBody np det amp mi didCorrect =
     (case take 3 (getLinearityCoeffs amp) of
        [squareCoeff, coeff1, maxUncorr] \<Rightarrow>
          if coeff1 \<noteq> 0 then
            Inl (RuntimeError (Coeff1MustBeZero coeff1 (getId det) (getName amp)))
          else if maxUncorr \<le> 0 \<and> squareCoeff = 0 then Inr (mi, didCorrect)
          else if \<not> fitsIn (getBBox amp) (miBBox mi) then Inl LengthError
          else
            (let mi1 = (if maxUncorr > 0
                        then FootprintSet (getBBox amp) maxUncorr ''SUSPECT'' mi else mi);
                 mi2 = (if squareCoeff \<noteq> 0
                        then linearizeView np (getBBox amp) squareCoeff mi1 else mi1)
             in Inr (mi2, True))
      | _ \<Rightarrow> Inl ValueError)"

fun ampLoop ::
  "numpy \<Rightarrow> detector \<Rightarrow> amplifier list \<Rightarrow> maskedImage \<Rightarrow> bool \<Rightarrow> maskedImage \<times> (error + bool)" where
  "ampLoop np det [] mi didCorrect = (mi, Inr didCorrect)"
| "ampLoop np det (amp # rest) mi didCorrect =
     (case ampBody np det amp mi didCorrect of
        Inl e \<Rightarrow> (mi, Inl e)
      | Inr (mi', didCorrect') \<Rightarrow> ampLoop np det rest mi' didCorrect')"

text \<open>
  \<^verbatim>\<open>run\<close> mutates the exposure in place and returns nothing: the model returns the
  exposure as the call leaves it, and either the exception or the messages logged.
\<close>

definition run :: "numpy \<Rightarrow> exposure \<Rightarrow> exposure \<times> (error + log_event list)" where
  "run np exposure =
     (let det = getDetector exposure in
      case doCorrect det of
        Inl e \<Rightarrow> (exposure, Inl e)
      | Inr False \<Rightarrow> (exposure, Inr [LogDebugNotWanted (getId det)])
      | Inr True \<Rightarrow>
          (case ampLoop np det (amps det) (getMaskedImage exposure) False of
             (mi, Inl e) \<Rightarrow> (exposure\<lparr>getMaskedImage := mi\<rparr>, Inl e)
           | (mi, Inr didCorrect) \<Rightarrow>
               (exposure\<lparr>getMaskedImage := mi\<rparr>,
                Inr (if didCorrect then [LogInfoApplied (getId det)] else []))))"

section \<open>IsrTask\<close>

text \<open>
  IsrTask is written against the older camera geometry: a detector object is an Amp, a
  Ccd, a Raft or a plain Detector, and \<^verbatim>\<open>checkIsAmp\<close> is \<^verbatim>\<open>isinstance(detector, cameraGeom.Amp)\<close>.
\<close>

record electronicParams =
  getGain :: real
  getReadNoise :: real
  getSaturationLevel :: real

datatype cgClass = AmpClass | CcdClass | RaftClass | DetectorClass

record cgDetector =
  classOf :: cgClass
  getElectronicParams :: electronicParams
  getDiskBiasSec :: box2I

record isrConfig =
  fwhm :: real
  saturatedMaskName :: string
  growSaturationFootprintSize :: int
  growDefectFootprintSize :: int
  overscanFitType :: string
  overscanPolyOrder :: int

text \<open>
  The numeric routines live in the external module \<^verbatim>\<open>isr\<close> and in the framework. A call
  to one of them is an event, recorded with its arguments; what it does to the masked
  image it is given is a parameter of the model, and it is taken to return normally.
\<close>

datatype extcall =
    IsrBiasCorrection maskedImage
  | IsrUpdateVariance real real
  | IsrSaturationCorrection real real int string
  | IsrMakeThresholdMask real int string
  | IsrOverscanCorrection box2I string int
  | IsrGetDefectListFromMask string int
  | IsrTransposeMaskedImage
  | MaskAddMaskPlane string
  | UnmaskedNanCounterApply

type_synonym extlib = "extcall \<Rightarrow> maskedImage \<Rightarrow> maskedImage"

text \<open>
  The task object: its metadata, the attribute \<^verbatim>\<open>transposeForInterpolation\<close>, and the
  external calls made so far (a ghost field, in call order).
\<close>

record isrTask =
  metadata :: "string \<rightharpoonup> int"
  transposeForInterpolation :: bool
  calls :: "extcall list"

definition callExt :: "extlib \<Rightarrow> extcall \<Rightarrow> isrTask \<times> exposure \<Rightarrow> isrTask \<times> exposure" where
  "callExt isr c st =
     (case st of (self, exposure) \<Rightarrow>
        (self\<lparr>calls := calls self @ [c]\<rparr>,
         exposure\<lparr>getMaskedImage := isr c (getMaskedImage exposure)\<rparr>))"

text \<open>
  \<^verbatim>\<open>getMask().addMaskPlane(name)\<close> registers a plane name with the mask; the plane
  dictionary is not part of the model, and no pixel changes.
\<close>

definition addMaskPlane :: "string \<Rightarrow> isrTask \<times> exposure \<Rightarrow> isrTask \<times> exposure" where
  "addMaskPlane name st =
     (case st of (self, exposure) \<Rightarrow>
        (self\<lparr>calls := calls self @ [MaskAddMaskPlane name]\<rparr>, exposure))"

definition checkIsAmp :: "cgDetector \<Rightarrow> bool" where
  "checkIsAmp det = (classOf det = AmpClass)"

text \<open>
  Python resolves a name in the function's local variables, then in the module's globals;
  a name bound in neither is a NameError. The globals of isrTask.py are its imports and
  its two classes.
\<close>

datatype pyobj =
    ExposureObj exposure
  | DataRefObj "string \<Rightarrow> exposure"
  | DetectorObj cgDetector
  | TaskObj
  | ModuleObj

definition module_globals :: "(string \<times> pyobj) list" where
  "module_globals =
     [(''afwImage'', ModuleObj), (''measAlg'', ModuleObj), (''cameraGeom'', ModuleObj),
      (''pexConfig'', ModuleObj), (''pipeBase'', ModuleObj), (''isr'', ModuleObj),
      (''UnmaskedNanCounterF'', ModuleObj), (''AssembleCcdTask'', ModuleObj),
      (''IsrTaskConfig'', ModuleObj), (''IsrTask'', ModuleObj)]"

definition lookupName :: "(string \<times> pyobj) list \<Rightarrow> string \<Rightarrow> error + pyobj" where
  "lookupName locals name =
     (case map_of (locals @ module_globals) name of
        None \<Rightarrow> Inl (NameError name)
      | Some obj \<Rightarrow> Inr obj)"

text \<open>
  \<^verbatim>\<open>biasCorrection(self, exposure, dataRef)\<close> and \<^verbatim>\<open>updateVariance(self, exposure, ccd)\<close>:
  the bodies name \<^verbatim>\<open>sensorRef\<close> and \<^verbatim>\<open>ccdExp\<close>, which are variables of \<^verbatim>\<open>run\<close>.
\<close>

definition biasCorrection ::
  "extlib \<Rightarrow> isrTask \<Rightarrow> exposure \<Rightarrow> (string \<Rightarrow> exposure) \<Rightarrow>
   (isrTask \<times> exposure) \<times> (error + unit)" where
  "biasCorrection isr self exposure dataRef =
     (let locals = [(''self'', TaskObj), (''exposure'', ExposureObj exposure),
                    (''dataRef'', DataRefObj dataRef)] in
      case lookupName locals ''sensorRef'' of
        Inl e \<Rightarrow> ((self, exposure), Inl e)
      | Inr (DataRefObj sensorRef) \<Rightarrow>
          (let biasMI = getMaskedImage (sensorRef ''bias'') in
           case lookupName locals ''ccdExp'' of
             Inl e \<Rightarrow> ((self, exposure), Inl e)
           | Inr (ExposureObj ccdExp) \<Rightarrow>
               (callExt isr (IsrBiasCorrection biasMI) (self, ccdExp), Inr ())
           | Inr _ \<Rightarrow> ((self, exposure), Inl AttributeError))
      | Inr _ \<Rightarrow> ((self, exposure), Inl AttributeError))"

definition updateVariance ::
  "extlib \<Rightarrow> isrTask \<Rightarrow> exposure \<Rightarrow> cgDetector \<Rightarrow>
   (isrTask \<times> exposure) \<times> (error + unit)" where
  "updateVariance isr self exposure ccd =
     (let locals = [(''self'', TaskObj), (''exposure'', ExposureObj exposure),
                    (''ccd'', DetectorObj ccd)] in
      case lookupName locals ''ccdExp'' of
        Inl e \<Rightarrow> ((self, exposure), Inl e)
      | Inr (ExposureObj ccdExp) \<Rightarrow>
          (callExt isr (IsrUpdateVariance (getGain (getElectronicParams ccd))
                                           (getReadNoise (getElectronicParams ccd)))
                   (self, ccdExp), Inr ())
      | Inr _ \<Rightarrow> ((self, exposure), Inl AttributeError))"

text \<open>The amplifier-only helpers.\<close>

definition saturationCorrection ::
  "extlib \<Rightarrow> isrConfig \<Rightarrow> isrTask \<Rightarrow> exposure \<Rightarrow> cgDetector \<Rightarrow>
   (isrTask \<times> exposure) \<times> (error + unit)" where
  "saturationCorrection isr config self exposure det =
     (if \<not> checkIsAmp det then ((self, exposure), Inl (RuntimeError MustBeExecutedOnAmp))
      else
        (let grow = growSaturationFootprintSize config;
             maskName = saturatedMaskName config;
             ep = getElectronicParams det;
             satvalue = getSaturationLevel ep
         in (callExt isr (IsrSaturationCorrection satvalue (fwhm config) grow maskName)
                     (self, exposure), Inr ())))"

definition saturationDetection ::
  "extlib \<Rightarrow> isrConfig \<Rightarrow> isrTask \<Rightarrow> exposure \<Rightarrow> cgDetector \<Rightarrow>
   (isrTask \<times> exposure) \<times> (error + unit)" where
  "saturationDetection isr config self exposure det =
     (if \<not> checkIsAmp det then ((self, exposure), Inl (RuntimeError MustBeExecutedOnAmp))
      else
        (let ep = getElectronicParams det;
             satvalue = getSaturationLevel ep;
             maskName = saturatedMaskName config
         in (callExt isr (IsrMakeThresholdMask satvalue 0 maskName) (self, exposure),
             Inr ())))"

text \<open>
  \<^verbatim>\<open>overscanCorrection\<close> takes a view of the image on the amplifier's bias section before
  it calls the external routine; the view's constructor is the framework's, as above.
\<close>

definition overscanCorrection ::
  "extlib \<Rightarrow> isrConfig \<Rightarrow> isrTask \<Rightarrow> exposure \<Rightarrow> cgDetector \<Rightarrow>
   (isrTask \<times> exposure) \<times> (error + unit)" where
  "overscanCorrection isr config self exposure det =
     (if \<not> checkIsAmp det then ((self, exposure), Inl (RuntimeError MustBeExecutedOnAmp))
      else
        (let fittype = overscanFitType config;
             polyorder = overscanPolyOrder config;
             overscan = getDiskBiasSec det
         in if \<not> fitsIn overscan (miBBox (getMaskedImage exposure))
            then ((self, exposure), Inl LengthError)
            else (callExt isr (IsrOverscanCorrection overscan fittype polyorder)
                          (self, exposure), Inr ())))"

text \<open>
  Modelled from the spec: \<^verbatim>\<open>UnmaskedNanCounterF\<close> comes from the compiled library
  \<^verbatim>\<open>isrLib\<close> of this package, which is not among the sources. The spec calls what
  \<^verbatim>\<open>getNpix\<close> reports the count of unmasked NaN pixels: the pixels of the image whose
  value is NaN and whose mask has no plane set. What \<^verbatim>\<open>apply\<close> writes to the mask is
  left to the external-call parameter.
\<close>

definition pixelsOf :: "box2I \<Rightarrow> point list" where
  "pixelsOf b = concat (map (\<lambda>y. map (\<lambda>x. (x, y)) [minX b..maxX b]) [minY b..maxY b])"

definition unmaskedNan :: "maskedImage \<Rightarrow> point \<Rightarrow> bool" where
  "unmaskedNan mi p = (getImage mi p = NaN \<and> getMask mi p = {})"

definition getNpix :: "maskedImage \<Rightarrow> nat" where
  "getNpix mi = length (filter (unmaskedNan mi) (pixelsOf (miBBox mi)))"

text \<open>
  \<^verbatim>\<open>maskAndInterpNan\<close>. In the branch under \<^verbatim>\<open>nnans > 0\<close> the defect list is
  assigned to \<^verbatim>\<open>undefects\<close> and read back as \<^verbatim>\<open>uudefects\<close>, a name bound nowhere.
\<close>

definition maskAndInterpNan ::
  "extlib \<Rightarrow> isrConfig \<Rightarrow> isrTask \<Rightarrow> exposure \<Rightarrow> (isrTask \<times> exposure) \<times> (error + unit)" where
  "maskAndInterpNan isr config self exposure =
     (let grow = growDefectFootprintSize config;
          st1 = addMaskPlane ''UNMASKEDNAN'' (self, exposure);
          nnans = int (getNpix (getMaskedImage (snd st1)));
          st2 = callExt isr UnmaskedNanCounterApply st1;
          st3 = ((fst st2)\<lparr>metadata := (metadata (fst st2))(''NUMNANS'' \<mapsto> nnans)\<rparr>, snd st2)
      in if \<not> nnans = 0 then (st3, Inl (RuntimeError (UnmaskedNaNs nnans)))
         else if nnans > 0 then
           (let locals = [(''self'', TaskObj), (''exposure'', ExposureObj (snd st3))];
                st4 = callExt isr (IsrGetDefectListFromMask ''UNMASKEDNAN'' grow) st3
            in if transposeForInterpolation (fst st4) then
                 (let st5 = callExt isr IsrTransposeMaskedImage st4 in
                  case lookupName locals ''uudefects'' of
                    Inl e \<Rightarrow> ((fst st5, snd st4), Inl e)
                  | Inr _ \<Rightarrow> ((fst st5, snd st4), Inl AttributeError))
               else
                 (case lookupName locals ''uudefects'' of
                    Inl e \<Rightarrow> (st4, Inl e)
                  | Inr _ \<Rightarrow> (st4, Inl AttributeError)))
         else (st3, Inr ()))"

section \<open>Sample inputs\<close>

text \<open>
  A two-pixel image, with value 2 at (0, 0) and value 1 at (1, 0), no mask plane set;
  one-pixel amplifiers at a given column; an exposure of detector 7 over that image.
\<close>

definition exImage :: maskedImage where
  "exImage =
     \<lparr>getImage = (\<lambda>p. if p = (0, 0) then Fin 2 else Fin 1),
      getMask = (\<lambda>p. {}),
      getVariance = (\<lambda>p. Fin 1),
      miBBox = \<lparr>minX = 0, minY = 0, maxX = 1, maxY = 0\<rparr>\<rparr>"

definition exAmp :: "string \<Rightarrow> int \<Rightarrow> string \<Rightarrow> real list \<Rightarrow> amplifier" where
  "exAmp name x ty cs =
     \<lparr>getName = name, getBBox = \<lparr>minX = x, minY = 0, maxX = x, maxY = 0\<rparr>,
      getLinearityType = ty, getLinearityCoeffs = cs\<rparr>"

definition exExposure :: "amplifier list \<Rightarrow> exposure" where
  "exExposure as = \<lparr>getMaskedImage = exImage, getDetector = \<lparr>getId = 7, amps = as\<rparr>\<rparr>"

text \<open>
  A numpy for the samples: arithmetic on the reals and the infinities without rounding.
  On the values the samples meet (1, 2, 3 and 6) single-precision arithmetic is exact,
  and agrees with it.
\<close>

fun exactAdd :: "pixel \<Rightarrow> pixel \<Rightarrow> pixel" where
  "exactAdd (Fin a) (Fin b) = Fin (a + b)"
| "exactAdd NaN _ = NaN"
| "exactAdd _ NaN = NaN"
| "exactAdd PosInf NegInf = NaN"
| "exactAdd NegInf PosInf = NaN"
| "exactAdd PosInf _ = PosInf"
| "exactAdd _ PosInf = PosInf"
| "exactAdd NegInf _ = NegInf"
| "exactAdd _ NegInf = NegInf"

definition timesInf :: "bool \<Rightarrow> real \<Rightarrow> pixel" where
  "timesInf positive a =
     (if a = 0 then NaN else if (0 < a) = positive then PosInf else NegInf)"

fun exactMul :: "pixel \<Rightarrow> pixel \<Rightarrow> pixel" where
  "exactMul (Fin a) (Fin b) = Fin (a * b)"
| "exactMul NaN _ = NaN"
| "exactMul _ NaN = NaN"
| "exactMul PosInf (Fin b) = timesInf True b"
| "exactMul NegInf (Fin b) = timesInf False b"
| "exactMul (Fin a) PosInf = timesInf True a"
| "exactMul (Fin a) NegInf = timesInf False a"
| "exactMul PosInf PosInf = PosInf"
| "exactMul NegInf NegInf = PosInf"
| "exactMul PosInf NegInf = NegInf"
| "exactMul NegInf PosInf = NegInf"

definition exNumpy :: numpy where
  "exNumpy =
     \<lparr>mulScalar = (\<lambda>c v. exactMul (Fin c) v),
      addScalar = (\<lambda>c v. exactAdd (Fin c) v),
      imul = exactMul\<rparr>"

text \<open>
  For IsrTask: the default configuration, a fresh task, an external library whose
  threshold mask flags the pixels at or above the saturation level and whose other
  routines change nothing, an image with one unmasked NaN, and a detector object of a
  given class with saturation level 2 and the bias section at column 1.
\<close>

definition exConfig :: isrConfig where
  "exConfig =
     \<lparr>fwhm = 1, saturatedMaskName = ''SAT'', growSaturationFootprintSize = 1,
      growDefectFootprintSize = 1, overscanFitType = ''MEDIAN'', overscanPolyOrder = 1\<rparr>"

definition exTask :: isrTask where
  "exTask = \<lparr>metadata = Map.empty, transposeForInterpolation = False, calls = []\<rparr>"

definition exIsr :: extlib where
  "exIsr c mi =
     (case c of
        IsrMakeThresholdMask saturation grow maskName \<Rightarrow>
          mi\<lparr>getMask := (\<lambda>p. if aboveThreshold saturation (getImage mi p) \<or>
                                   getImage mi p = Fin saturation
                                then insert maskName (getMask mi p) else getMask mi p)\<rparr>
      | _ \<Rightarrow> mi)"

definition exNanImage :: maskedImage where
  "exNanImage =
     \<lparr>getImage = (\<lambda>p. if p = (1, 0) then NaN else Fin 2),
      getMask = (\<lambda>p. {}),
      getVariance = (\<lambda>p. Fin 1),
      miBBox = \<lparr>minX = 0, minY = 0, maxX = 1, maxY = 0\<rparr>\<rparr>"

definition exCgDetector :: "cgClass \<Rightarrow> cgDetector" where
  "exCgDetector c =
     \<lparr>classOf = c,
      getElectronicParams = \<lparr>getGain = 2, getReadNoise = 5, getSaturationLevel = 2\<rparr>,
      getDiskBiasSec = \<lparr>minX = 1, minY = 0, maxX = 1, maxY = 0\<rparr>\<rparr>"

section \<open>Properties of the amplifier loop\<close>

lemma take3_cases:
  "take 3 xs = [a, b, c] \<Longrightarrow> 3 \<le> length xs \<and> xs ! 0 = a \<and> xs ! 1 = b \<and> xs ! 2 = c"
proof -
  assume h: "take 3 xs = [a, b, c]"
  have l: "length (take 3 xs) = 3" using h by simp
  then have len: "3 \<le> length xs" by simp
  have "take 3 xs ! 0 = xs ! 0" "take 3 xs ! 1 = xs ! 1" "take 3 xs ! 2 = xs ! 2"
    by simp_all
  with h len show ?thesis by simp
qed

lemma take3_of_length:
  "3 \<le> length xs \<Longrightarrow> take 3 xs = [xs ! 0, xs ! 1, xs ! 2]"
proof -
  assume "3 \<le> length xs"
  then obtain a b c ys where "xs = a # b # c # ys"
    by (metis Suc_le_length_iff numeral_3_eq_3)
  then show ?thesis by simp
qed

lemma ampBody_frame:
  assumes "ampBody np det amp mi dc = Inr (mi', dc')"
  shows "miBBox mi' = miBBox mi" and "getVariance mi' = getVariance mi"
    and "\<not> inBox (getBBox amp) p \<Longrightarrow> getImage mi' p = getImage mi p"
    and "\<not> inBox (getBBox amp) p \<Longrightarrow> getMask mi' p = getMask mi p"
  using assms
  by (auto simp: ampBody_def FootprintSet_def linearizeView_def Let_def
           split: list.splits if_splits)

lemma ampLoop_frame:
  "miBBox (fst (ampLoop np det as mi dc)) = miBBox mi \<and>
   getVariance (fst (ampLoop np det as mi dc)) = getVariance mi \<and>
   ((\<forall>a \<in> set as. \<not> inBox (getBBox a) p) \<longrightarrow>
      getImage (fst (ampLoop np det as mi dc)) p = getImage mi p \<and>
      getMask (fst (ampLoop np det as mi dc)) p = getMask mi p)"
proof (induction as arbitrary: mi dc)
  case Nil
  show ?case by simp
next
  case (Cons a as)
  show ?case
  proof (cases "ampBody np det a mi dc")
    case (Inl e)
    then show ?thesis by simp
  next
    case (Inr r)
    obtain mi' dc' where r: "r = (mi', dc')" by (cases r)
    note fr = ampBody_frame[OF Inr[unfolded r]]
    show ?thesis using Cons.IH[of mi' dc'] Inr r fr by simp
  qed
qed

lemma ampLoop_append:
  "ampLoop np det (xs @ ys) mi dc =
     (case ampLoop np det xs mi dc of
        (mi', Inl e) \<Rightarrow> (mi', Inl e)
      | (mi', Inr dc') \<Rightarrow> ampLoop np det ys mi' dc')"
proof (induction xs arbitrary: mi dc)
  case Nil
  show ?case by simp
next
  case (Cons a xs)
  show ?case
  proof (cases "ampBody np det a mi dc")
    case (Inl e)
    then show ?thesis by simp
  next
    case (Inr r)
    obtain mi' dc' where r: "r = (mi', dc')" by (cases r)
    show ?thesis using Cons.IH[of mi' dc'] Inr r by simp
  qed
qed

lemma ampBody_skip:
  assumes "take 3 (getLinearityCoeffs a) = [0, c1, mu]" and "mu \<le> 0"
  shows "ampBody np det a mi dc =
           (if c1 \<noteq> 0 then Inl (RuntimeError (Coeff1MustBeZero c1 (getId det) (getName a)))
            else Inr (mi, dc))"
  using assms by (simp add: ampBody_def)

lemma ampBody_coeff1:
  assumes "take 3 (getLinearityCoeffs a) = [sq, c1, mu]" and "c1 \<noteq> 0"
  shows "ampBody np det a mi dc = Inl (RuntimeError (Coeff1MustBeZero c1 (getId det) (getName a)))"
  using assms by (simp add: ampBody_def)

lemma ampBody_short:
  assumes "length (getLinearityCoeffs a) < 3"
  shows "ampBody np det a mi dc = Inl ValueError"
proof -
  have "length (take 3 (getLinearityCoeffs a)) < 3" using assms by simp
  then show ?thesis
    by (auto simp: ampBody_def split: list.splits)
qed

lemma ampBody_good:
  assumes "take 3 (getLinearityCoeffs a) = [s, 0, t]" and "s \<noteq> 0" and "0 < t"
    and "fitsIn (getBBox a) (miBBox mi)"
  shows "ampBody np det a mi dc =
           Inr (linearizeView np (getBBox a) s (FootprintSet (getBBox a) t ''SUSPECT'' mi), True)"
  using assms by (simp add: ampBody_def)

lemma ampLoop_bad_member:
  assumes "a \<in> set as" and "\<And>mi dc. \<exists>e. ampBody np det a mi dc = Inl e"
  shows "\<exists>e. snd (ampLoop np det as mi dc) = Inl e"
  using assms(1)
proof (induction as arbitrary: mi dc)
  case Nil
  then show ?case by simp
next
  case (Cons b as)
  show ?case
  proof (cases "ampBody np det b mi dc")
    case (Inl e)
    then show ?thesis by simp
  next
    case (Inr r)
    obtain mi' dc' where r: "r = (mi', dc')" by (cases r)
    have "b \<noteq> a" using Inr assms(2)[of mi dc] by auto
    then have "a \<in> set as" using Cons.prems by simp
    from Cons.IH[OF this, of mi' dc'] show ?thesis using Inr r by simp
  qed
qed

lemma ampLoop_all_skip:
  assumes "\<forall>a \<in> set as. 3 \<le> length (getLinearityCoeffs a) \<and>
             getLinearityCoeffs a ! 0 = 0 \<and> getLinearityCoeffs a ! 2 \<le> 0"
  shows "fst (ampLoop np det as mi dc) = mi"
  using assms
proof (induction as arbitrary: mi dc)
  case Nil
  show ?case by simp
next
  case (Cons a as)
  have a: "3 \<le> length (getLinearityCoeffs a)" "getLinearityCoeffs a ! 0 = 0"
    "getLinearityCoeffs a ! 2 \<le> 0"
    using Cons.prems by simp_all
  have t: "take 3 (getLinearityCoeffs a) = [0, getLinearityCoeffs a ! 1, getLinearityCoeffs a ! 2]"
    using take3_of_length[OF a(1)] a(2) by simp
  have rest: "\<forall>a \<in> set as. 3 \<le> length (getLinearityCoeffs a) \<and>
             getLinearityCoeffs a ! 0 = 0 \<and> getLinearityCoeffs a ! 2 \<le> 0"
    using Cons.prems by simp
  show ?case
    using ampBody_skip[OF t a(3), of np det mi dc] Cons.IH[OF rest, of mi dc]
    by (simp split: if_splits)
qed

lemma ampLoop_good:
  assumes "s \<noteq> 0" and "0 < t"
  shows "(\<forall>a \<in> set as. take 3 (getLinearityCoeffs a) = [s, 0, t] \<and>
             fitsIn (getBBox a) (miBBox mi)) \<Longrightarrow>
         snd (ampLoop np det as mi dc) = Inr (dc \<or> as \<noteq> []) \<and>
         (length (filter (\<lambda>a. inBox (getBBox a) p) as) = 1 \<longrightarrow>
           getImage (fst (ampLoop np det as mi dc)) p = linearizePixel np s (getImage mi p) \<and>
           getMask (fst (ampLoop np det as mi dc)) p =
             (if aboveThreshold t (getImage mi p) then insert ''SUSPECT'' (getMask mi p)
              else getMask mi p))"
proof (induction as arbitrary: mi dc)
  case Nil
  show ?case by simp
next
  case (Cons a as)
  let ?mi' = "linearizeView np (getBBox a) s (FootprintSet (getBBox a) t ''SUSPECT'' mi)"
  have body: "ampBody np det a mi dc = Inr (?mi', True)"
    using ampBody_good[of a s t mi np det] Cons.prems assms by simp
  have bb: "miBBox ?mi' = miBBox mi"
    by (simp add: linearizeView_def FootprintSet_def)
  have rest: "\<forall>a \<in> set as. take 3 (getLinearityCoeffs a) = [s, 0, t] \<and>
             fitsIn (getBBox a) (miBBox ?mi')"
    using Cons.prems bb by simp
  note IH = Cons.IH[OF rest, of True]
  have res: "snd (ampLoop np det (a # as) mi dc) = Inr (dc \<or> a # as \<noteq> [])"
    using body IH by simp
  have pix: "getImage (fst (ampLoop np det (a # as) mi dc)) p = linearizePixel np s (getImage mi p) \<and>
           getMask (fst (ampLoop np det (a # as) mi dc)) p =
             (if aboveThreshold t (getImage mi p) then insert ''SUSPECT'' (getMask mi p)
              else getMask mi p)"
    if one: "length (filter (\<lambda>a. inBox (getBBox a) p) (a # as)) = 1"
  proof (cases "inBox (getBBox a) p")
    case True
    then have "filter (\<lambda>a. inBox (getBBox a) p) as = []"
      using one by simp
    then have none: "\<forall>b \<in> set as. \<not> inBox (getBBox b) p"
      by (simp add: filter_empty_conv)
    have "getImage (fst (ampLoop np det as ?mi' True)) p = getImage ?mi' p"
      and "getMask (fst (ampLoop np det as ?mi' True)) p = getMask ?mi' p"
      using ampLoop_frame[of np det as ?mi' True p] none by simp_all
    then show ?thesis using body True
      by (simp add: linearizeView_def FootprintSet_def)
  next
    case False
    then have one': "length (filter (\<lambda>a. inBox (getBBox a) p) as) = 1"
      using one by simp
    have same: "getImage ?mi' p = getImage mi p" "getMask ?mi' p = getMask mi p"
      using False by (simp_all add: linearizeView_def FootprintSet_def)
    show ?thesis using IH one' body same by simp
  qed
  show ?case using res pix by blast
qed

lemma ampBody_det_id:
  "getId det = getId det' \<Longrightarrow> ampBody np det a mi dc = ampBody np det' a mi dc"
  by (simp add: ampBody_def split: list.splits)

lemma ampLoop_det_id:
  "getId det = getId det' \<Longrightarrow> ampLoop np det as mi dc = ampLoop np det' as mi dc"
proof (induction as arbitrary: mi dc)
  case Nil
  show ?case by simp
next
  case (Cons a as)
  show ?case
    using ampBody_det_id[OF Cons.prems, of np a mi dc] Cons.IH[OF Cons.prems]
    by (simp split: sum.splits prod.splits)
qed

lemma doCorrect_same_head:
  "getId det = getId det' \<Longrightarrow> amps det = a # xs \<Longrightarrow> amps det' = a # ys \<Longrightarrow>
   doCorrect det = doCorrect det'"
  by (simp add: doCorrect_def Let_def)

lemma ampLoop_skip_middle:
  assumes "\<And>mi dc. ampBody np det a mi dc = Inr (mi, dc)"
  shows "ampLoop np det (pre @ a # post) mi dc = ampLoop np det (pre @ post) mi dc"
  by (simp add: ampLoop_append assms split: prod.splits sum.splits)

lemma exAmp_sel [simp]:
  "getName (exAmp n x ty cs) = n"
  "getBBox (exAmp n x ty cs) = \<lparr>minX = x, minY = 0, maxX = x, maxY = 0\<rparr>"
  "getLinearityType (exAmp n x ty cs) = ty"
  "getLinearityCoeffs (exAmp n x ty cs) = cs"
  by (simp_all add: exAmp_def)

lemma exImage_sel [simp]:
  "getImage exImage p = (if p = (0, 0) then Fin 2 else Fin 1)"
  "getMask exImage p = {}"
  "getVariance exImage p = Fin 1"
  "miBBox exImage = \<lparr>minX = 0, minY = 0, maxX = 1, maxY = 0\<rparr>"
  by (simp_all add: exImage_def)

lemma exExposure_sel [simp]:
  "getMaskedImage (exExposure as) = exImage"
  "getDetector (exExposure as) = \<lparr>getId = 7, amps = as\<rparr>"
  by (simp_all add: exExposure_def)

lemma run_single_sample:
  "run exNumpy (exExposure [exAmp ''A0'' 0 ''PROPORTIONAL'' [1, 0, 1]]) =
     (exExposure [exAmp ''A0'' 0 ''PROPORTIONAL'' [1, 0, 1]]
        \<lparr>getMaskedImage :=
           linearizeView exNumpy \<lparr>minX = 0, minY = 0, maxX = 0, maxY = 0\<rparr> 1
             (FootprintSet \<lparr>minX = 0, minY = 0, maxX = 0, maxY = 0\<rparr> 1 ''SUSPECT'' exImage)\<rparr>,
      Inr [LogInfoApplied 7])"
proof -
  have "ampBody exNumpy \<lparr>getId = 7, amps = [exAmp ''A0'' 0 ''PROPORTIONAL'' [1, 0, 1]]\<rparr>
          (exAmp ''A0'' 0 ''PROPORTIONAL'' [1, 0, 1]) exImage False =
        Inr (linearizeView exNumpy \<lparr>minX = 0, minY = 0, maxX = 0, maxY = 0\<rparr> 1
              (FootprintSet \<lparr>minX = 0, minY = 0, maxX = 0, maxY = 0\<rparr> 1 ''SUSPECT'' exImage),
             True)"
    using ampBody_good[of "exAmp ''A0'' 0 ''PROPORTIONAL'' [1, 0, 1]" 1 1 exImage exNumpy]
    by (simp add: fitsIn_def)
  then show ?thesis by (simp add: run_def doCorrect_def)
qed

lemma pixelsOf_sample:
  "pixelsOf \<lparr>minX = 0, minY = 0, maxX = 1, maxY = 0\<rparr> = [(0, 0), (1, 0)]"
proof -
  have "[0..1] = [0, 1::int]" by (simp add: upto.simps)
  moreover have "[0..0] = [0::int]" by (simp add: upto.simps)
  ultimately show ?thesis by (simp add: pixelsOf_def)
qed

section \<open>The claims about ProportionalLinearizeTask\<close>

text \<open>
  C4. \<^verbatim>\<open>doCorrect\<close> decides on the first amplifier only: a detector with first amplifier
  \<open>a\<close> gets the verdict of the detector holding \<open>a\<close> alone. The verdict is False for
  type NONE, True for PROPORTIONAL with at least three coefficients, a RuntimeError for
  PROPORTIONAL with fewer, and a RuntimeError for every other type.
\<close>

theorem doCorrect_first_amplifier:
  assumes "amps det = a # rest"
  shows "doCorrect det = doCorrect (det\<lparr>amps := [a]\<rparr>) \<and>
         (getLinearityType a = ''NONE'' \<longrightarrow> doCorrect det = Inr False) \<and>
         (getLinearityType a = ''PROPORTIONAL'' \<and> 3 \<le> length (getLinearityCoeffs a) \<longrightarrow>
            doCorrect det = Inr True) \<and>
         (getLinearityType a = ''PROPORTIONAL'' \<and> length (getLinearityCoeffs a) < 3 \<longrightarrow>
            doCorrect det = Inl (RuntimeError (NeedThreeCoeffs (length (getLinearityCoeffs a))))) \<and>
         (getLinearityType a \<noteq> ''NONE'' \<and> getLinearityType a \<noteq> ''PROPORTIONAL'' \<longrightarrow>
            doCorrect det =
              Inl (RuntimeError (UnsupportedLinearityType (getLinearityType a) (getId det) (getName a))))"
  using assms by (simp add: doCorrect_def Let_def)

theorem doCorrect_first_amplifier_witness:
  "doCorrect \<lparr>getId = 7, amps = [exAmp ''A0'' 0 ''NONE'' [], exAmp ''A1'' 1 ''POLY'' []]\<rparr> = Inr False \<and>
   doCorrect \<lparr>getId = 7, amps = [exAmp ''A0'' 0 ''PROPORTIONAL'' [1, 0, 1], exAmp ''A1'' 1 ''NONE'' []]\<rparr> = Inr True \<and>
   doCorrect \<lparr>getId = 7, amps = [exAmp ''A0'' 0 ''PROPORTIONAL'' [1, 0]]\<rparr> =
     Inl (RuntimeError (NeedThreeCoeffs 2)) \<and>
   doCorrect \<lparr>getId = 7, amps = [exAmp ''A0'' 0 ''POLY'' [1, 0, 1]]\<rparr> =
     Inl (RuntimeError (UnsupportedLinearityType ''POLY'' 7 ''A0''))"
  using doCorrect_first_amplifier
          [of "\<lparr>getId = 7, amps = [exAmp ''A0'' 0 ''NONE'' [], exAmp ''A1'' 1 ''POLY'' []]\<rparr>"
              "exAmp ''A0'' 0 ''NONE'' []" "[exAmp ''A1'' 1 ''POLY'' []]"]
        doCorrect_first_amplifier
          [of "\<lparr>getId = 7, amps = [exAmp ''A0'' 0 ''PROPORTIONAL'' [1, 0, 1], exAmp ''A1'' 1 ''NONE'' []]\<rparr>"
              "exAmp ''A0'' 0 ''PROPORTIONAL'' [1, 0, 1]" "[exAmp ''A1'' 1 ''NONE'' []]"]
        doCorrect_first_amplifier
          [of "\<lparr>getId = 7, amps = [exAmp ''A0'' 0 ''PROPORTIONAL'' [1, 0]]\<rparr>"
              "exAmp ''A0'' 0 ''PROPORTIONAL'' [1, 0]" "[]"]
        doCorrect_first_amplifier
          [of "\<lparr>getId = 7, amps = [exAmp ''A0'' 0 ''POLY'' [1, 0, 1]]\<rparr>"
              "exAmp ''A0'' 0 ''POLY'' [1, 0, 1]" "[]"]
  by (simp add: exAmp_def doCorrect_def)

text \<open>
  C5. When correction is wanted and some amplifier of the detector has a non-zero second
  linearity coefficient, \<^verbatim>\<open>run\<close> ends in an exception.
\<close>

theorem run_raises_on_nonzero_coeff1:
  assumes "doCorrect (getDetector e) = Inr True"
    and "a \<in> set (amps (getDetector e))"
    and "1 < length (getLinearityCoeffs a)"
    and "getLinearityCoeffs a ! 1 \<noteq> 0"
  shows "\<exists>err. snd (run np e) = Inl err"
proof -
  have bad: "\<exists>err. ampBody np (getDetector e) a mi dc = Inl err" for mi dc
  proof (cases "length (getLinearityCoeffs a) < 3")
    case True
    then show ?thesis using ampBody_short by blast
  next
    case False
    then have "take 3 (getLinearityCoeffs a) =
        [getLinearityCoeffs a ! 0, getLinearityCoeffs a ! 1, getLinearityCoeffs a ! 2]"
      using take3_of_length[of "getLinearityCoeffs a"] by simp
    from ampBody_coeff1[OF this assms(4)] show ?thesis by blast
  qed
  obtain err where
    "snd (ampLoop np (getDetector e) (amps (getDetector e)) (getMaskedImage e) False) = Inl err"
    using ampLoop_bad_member[OF assms(2), of np "getDetector e" "getMaskedImage e" False] bad
    by blast
  then show ?thesis using assms(1)
    by (auto simp: run_def Let_def split: prod.splits sum.splits)
qed

theorem run_raises_on_nonzero_coeff1_witness:
  "doCorrect (getDetector (exExposure [exAmp ''A0'' 0 ''PROPORTIONAL'' [0, 0, 0],
                                       exAmp ''A1'' 1 ''PROPORTIONAL'' [1, 5, 1]])) = Inr True \<and>
   (\<exists>err. snd (run exNumpy (exExposure [exAmp ''A0'' 0 ''PROPORTIONAL'' [0, 0, 0],
                                 exAmp ''A1'' 1 ''PROPORTIONAL'' [1, 5, 1]])) = Inl err)"
  using run_raises_on_nonzero_coeff1
          [of "exExposure [exAmp ''A0'' 0 ''PROPORTIONAL'' [0, 0, 0],
                           exAmp ''A1'' 1 ''PROPORTIONAL'' [1, 5, 1]]"
              "exAmp ''A1'' 1 ''PROPORTIONAL'' [1, 5, 1]" exNumpy]
  by (simp add: exExposure_def exAmp_def doCorrect_def)

text \<open>
  C6. When every amplifier has linearity type NONE, \<^verbatim>\<open>run\<close> leaves the exposure, and
  so its image, mask and variance planes, exactly as it was; with at least one amplifier
  it returns normally after the debug message.
\<close>

theorem run_none_unchanged:
  assumes "\<forall>a \<in> set (amps (getDetector e)). getLinearityType a = ''NONE''"
  shows "fst (run np e) = e \<and>
         (amps (getDetector e) \<noteq> [] \<longrightarrow>
            snd (run np e) = Inr [LogDebugNotWanted (getId (getDetector e))])"
proof (cases "amps (getDetector e)")
  case Nil
  then show ?thesis by (simp add: run_def doCorrect_def)
next
  case (Cons a rest)
  then have "getLinearityType a = ''NONE''" using assms by simp
  then have "doCorrect (getDetector e) = Inr False"
    using Cons by (simp add: doCorrect_def)
  then show ?thesis by (simp add: run_def)
qed

theorem run_none_unchanged_witness:
  "fst (run exNumpy (exExposure [exAmp ''A0'' 0 ''NONE'' [1, 0, 1], exAmp ''A1'' 1 ''NONE'' []])) =
     exExposure [exAmp ''A0'' 0 ''NONE'' [1, 0, 1], exAmp ''A1'' 1 ''NONE'' []] \<and>
   snd (run exNumpy (exExposure [exAmp ''A0'' 0 ''NONE'' [1, 0, 1], exAmp ''A1'' 1 ''NONE'' []])) =
     Inr [LogDebugNotWanted 7]"
  using run_none_unchanged
          [of "exExposure [exAmp ''A0'' 0 ''NONE'' [1, 0, 1], exAmp ''A1'' 1 ''NONE'' []]"
              exNumpy]
  by (simp add: exExposure_def exAmp_def)

text \<open>
  C8. When every amplifier is PROPORTIONAL with squareCoeff = 0 and maxUncorr = 0, a
  second application of \<^verbatim>\<open>run\<close> changes nothing (and neither does the first).
\<close>

theorem run_twice_noop:
  assumes "\<forall>a \<in> set (amps (getDetector e)).
             getLinearityType a = ''PROPORTIONAL'' \<and> 3 \<le> length (getLinearityCoeffs a) \<and>
             getLinearityCoeffs a ! 0 = 0 \<and> getLinearityCoeffs a ! 2 = 0"
  shows "fst (run np (fst (run np e))) = fst (run np e) \<and> fst (run np e) = e"
proof -
  have skip: "\<forall>a \<in> set (amps (getDetector e)). 3 \<le> length (getLinearityCoeffs a) \<and>
             getLinearityCoeffs a ! 0 = 0 \<and> getLinearityCoeffs a ! 2 \<le> 0"
    using assms by simp
  have "fst (ampLoop np (getDetector e) (amps (getDetector e)) (getMaskedImage e) False) =
          getMaskedImage e"
    by (rule ampLoop_all_skip[OF skip])
  then have "fst (run np e) = e"
    by (auto simp: run_def Let_def split: sum.splits bool.splits prod.splits)
  then show ?thesis by simp
qed

theorem run_twice_noop_witness:
  "fst (run exNumpy (fst (run exNumpy (exExposure [exAmp ''A0'' 0 ''PROPORTIONAL'' [0, 0, 0],
                                    exAmp ''A1'' 1 ''PROPORTIONAL'' [0, 0, 0, 9]])))) =
     fst (run exNumpy (exExposure [exAmp ''A0'' 0 ''PROPORTIONAL'' [0, 0, 0],
                           exAmp ''A1'' 1 ''PROPORTIONAL'' [0, 0, 0, 9]])) \<and>
   fst (run exNumpy (exExposure [exAmp ''A0'' 0 ''PROPORTIONAL'' [0, 0, 0],
                         exAmp ''A1'' 1 ''PROPORTIONAL'' [0, 0, 0, 9]])) =
     exExposure [exAmp ''A0'' 0 ''PROPORTIONAL'' [0, 0, 0],
                 exAmp ''A1'' 1 ''PROPORTIONAL'' [0, 0, 0, 9]]"
  using run_twice_noop
          [of "exExposure [exAmp ''A0'' 0 ''PROPORTIONAL'' [0, 0, 0],
                           exAmp ''A1'' 1 ''PROPORTIONAL'' [0, 0, 0, 9]]" exNumpy]
  by (simp add: exExposure_def exAmp_def)

text \<open>
  C9. An amplifier with squareCoeff = 0 and maxUncorr < 0 is skipped: its iteration
  leaves the masked image and the flag as they are (the test is maxUncorr \<le> 0), so the
  loop over a list with that amplifier anywhere in it is the loop over the list without
  it, and for a detector where it is not the first amplifier \<^verbatim>\<open>run\<close> gives the planes
  and the outcome it gives without it. With a non-zero coeff[1] the iteration raises
  instead, again before any write.
\<close>

theorem negative_maxUncorr_skipped:
  assumes "take 3 (getLinearityCoeffs a) = [0, c1, mu]" and "mu < 0"
  shows "(c1 \<noteq> 0 \<longrightarrow>
            ampBody np det a mi dc =
              Inl (RuntimeError (Coeff1MustBeZero c1 (getId det) (getName a)))) \<and>
         (c1 = 0 \<longrightarrow>
            ampBody np det a mi dc = Inr (mi, dc) \<and>
            ampLoop np det (pre @ a # post) mi dc = ampLoop np det (pre @ post) mi dc \<and>
            (pre \<noteq> [] \<and> amps (getDetector e) = pre @ a # post \<longrightarrow>
               getMaskedImage (fst (run np e)) =
                 getMaskedImage
                   (fst (run np (e\<lparr>getDetector := (getDetector e)\<lparr>amps := pre @ post\<rparr>\<rparr>))) \<and>
               snd (run np e) =
                 snd (run np (e\<lparr>getDetector := (getDetector e)\<lparr>amps := pre @ post\<rparr>\<rparr>))))"
proof -
  have le: "mu \<le> 0" using assms(2) by simp
  note body = ampBody_skip[OF assms(1) le]
  have raise: "c1 \<noteq> 0 \<Longrightarrow>
      ampBody np det a mi dc = Inl (RuntimeError (Coeff1MustBeZero c1 (getId det) (getName a)))"
    using body[of np det mi dc] by simp
  have skip: "ampBody np d a m b = Inr (m, b)" if "c1 = 0" for d m b
    using body[of np d m b] that by simp
  have loop: "ampLoop np d (pre @ a # post) m b = ampLoop np d (pre @ post) m b"
    if "c1 = 0" for d m b
    by (rule ampLoop_skip_middle) (simp add: skip that)
  have runs: "getMaskedImage (fst (run np e)) =
                 getMaskedImage
                   (fst (run np (e\<lparr>getDetector := (getDetector e)\<lparr>amps := pre @ post\<rparr>\<rparr>))) \<and>
               snd (run np e) =
                 snd (run np (e\<lparr>getDetector := (getDetector e)\<lparr>amps := pre @ post\<rparr>\<rparr>))"
    if z: "c1 = 0" and ne: "pre \<noteq> []" and am: "amps (getDetector e) = pre @ a # post"
  proof -
    let ?d = "getDetector e"
    let ?d' = "(getDetector e)\<lparr>amps := pre @ post\<rparr>"
    obtain b bs where pre: "pre = b # bs" using ne by (cases pre) auto
    have id: "getId ?d = getId ?d'" by simp
    have dc: "doCorrect ?d = doCorrect ?d'"
      by (rule doCorrect_same_head[OF id, of b "bs @ a # post" "bs @ post"])
         (simp_all add: am pre)
    have lp: "ampLoop np ?d (amps ?d) (getMaskedImage e) False =
              ampLoop np ?d' (amps ?d') (getMaskedImage e) False"
      using loop[OF z, of ?d "getMaskedImage e" False] ampLoop_det_id[OF id] am by simp
    show ?thesis
      using dc lp
      by (simp add: run_def Let_def split: sum.splits bool.splits prod.splits)
  qed
  show ?thesis using raise skip loop runs by blast
qed

theorem negative_maxUncorr_skipped_witness:
  "getMaskedImage (fst (run exNumpy (exExposure [exAmp ''A0'' 0 ''PROPORTIONAL'' [1, 0, 1],
                                         exAmp ''A1'' 1 ''PROPORTIONAL'' [0, 0, -1]]))) =
     getMaskedImage (fst (run exNumpy (exExposure [exAmp ''A0'' 0 ''PROPORTIONAL'' [1, 0, 1]]))) \<and>
   snd (run exNumpy (exExposure [exAmp ''A0'' 0 ''PROPORTIONAL'' [1, 0, 1],
                         exAmp ''A1'' 1 ''PROPORTIONAL'' [0, 0, -1]])) =
     Inr [LogInfoApplied 7] \<and>
   getImage (getMaskedImage (fst (run exNumpy (exExposure [exAmp ''A0'' 0 ''PROPORTIONAL'' [1, 0, 1],
                    exAmp ''A1'' 1 ''PROPORTIONAL'' [0, 0, -1]])))) (1, 0) = Fin 1 \<and>
   getMask (getMaskedImage (fst (run exNumpy (exExposure [exAmp ''A0'' 0 ''PROPORTIONAL'' [1, 0, 1],
                    exAmp ''A1'' 1 ''PROPORTIONAL'' [0, 0, -1]])))) (1, 0) = {}"
proof -
  let ?a0 = "exAmp ''A0'' 0 ''PROPORTIONAL'' [1, 0, 1]"
  let ?a1 = "exAmp ''A1'' 1 ''PROPORTIONAL'' [0, 0, -1]"
  have h1: "take 3 (getLinearityCoeffs ?a1) = [0, 0, -1]" by simp
  have h2: "(-1::real) < 0" by simp
  have e: "(exExposure [?a0, ?a1])\<lparr>getDetector := \<lparr>getId = 7, amps = [?a0]\<rparr>\<rparr> =
           exExposure [?a0]"
    by (simp add: exExposure_def)
  have "getMaskedImage (fst (run exNumpy (exExposure [?a0, ?a1]))) =
          getMaskedImage (fst (run exNumpy (exExposure [?a0]))) \<and>
        snd (run exNumpy (exExposure [?a0, ?a1])) = snd (run exNumpy (exExposure [?a0]))"
    using negative_maxUncorr_skipped
            [OF h1 h2, of exNumpy "getDetector (exExposure [?a0, ?a1])" exImage False
               "[?a0]" "[]" "exExposure [?a0, ?a1]"] e
    by simp
  then show ?thesis
    by (simp add: run_single_sample linearizeView_def FootprintSet_def inBox_def)
qed

text \<open>
  C10. When \<^verbatim>\<open>run\<close> raises on an amplifier with non-zero coeff[1], the exposure it
  leaves behind is the one the loop over the earlier amplifiers produced, not the
  exposure it was called with: the corrections already made stay.
\<close>

theorem run_error_keeps_earlier_corrections:
  assumes "doCorrect (getDetector e) = Inr True"
    and "amps (getDetector e) = pre @ a # post"
    and "ampLoop np (getDetector e) pre (getMaskedImage e) False = (mi', Inr dc)"
    and "take 3 (getLinearityCoeffs a) = [sq, c1, mu]"
    and "c1 \<noteq> 0"
  shows "run np e =
           (e\<lparr>getMaskedImage := mi'\<rparr>,
            Inl (RuntimeError (Coeff1MustBeZero c1 (getId (getDetector e)) (getName a))))"
proof -
  have "ampLoop np (getDetector e) (pre @ a # post) (getMaskedImage e) False =
          (mi', Inl (RuntimeError (Coeff1MustBeZero c1 (getId (getDetector e)) (getName a))))"
    using assms(3) ampBody_coeff1[OF assms(4,5), of np "getDetector e" mi' dc]
    by (simp add: ampLoop_append)
  then show ?thesis using assms(1,2) by (simp add: run_def)
qed

theorem run_error_keeps_earlier_corrections_witness:
  "snd (run exNumpy (exExposure [exAmp ''A0'' 0 ''PROPORTIONAL'' [1, 0, 1],
                         exAmp ''A1'' 1 ''PROPORTIONAL'' [1, 5, 1]])) =
     Inl (RuntimeError (Coeff1MustBeZero 5 7 ''A1'')) \<and>
   getImage (getMaskedImage (exExposure [exAmp ''A0'' 0 ''PROPORTIONAL'' [1, 0, 1],
                         exAmp ''A1'' 1 ''PROPORTIONAL'' [1, 5, 1]])) (0, 0) = Fin 2 \<and>
   getImage (getMaskedImage (fst (run exNumpy (exExposure [exAmp ''A0'' 0 ''PROPORTIONAL'' [1, 0, 1],
                         exAmp ''A1'' 1 ''PROPORTIONAL'' [1, 5, 1]])))) (0, 0) = Fin 6 \<and>
   getMask (getMaskedImage (fst (run exNumpy (exExposure [exAmp ''A0'' 0 ''PROPORTIONAL'' [1, 0, 1],
                         exAmp ''A1'' 1 ''PROPORTIONAL'' [1, 5, 1]])))) (0, 0) = {''SUSPECT''}"
proof -
  let ?a0 = "exAmp ''A0'' 0 ''PROPORTIONAL'' [1, 0, 1]"
  let ?a1 = "exAmp ''A1'' 1 ''PROPORTIONAL'' [1, 5, 1]"
  let ?e = "exExposure [?a0, ?a1]"
  let ?mi = "linearizeView exNumpy \<lparr>minX = 0, minY = 0, maxX = 0, maxY = 0\<rparr> 1
               (FootprintSet \<lparr>minX = 0, minY = 0, maxX = 0, maxY = 0\<rparr> 1 ''SUSPECT'' exImage)"
  have h1: "doCorrect (getDetector ?e) = Inr True" by (simp add: doCorrect_def)
  have h2: "amps (getDetector ?e) = [?a0] @ ?a1 # []" by simp
  have h3: "ampLoop exNumpy (getDetector ?e) [?a0] (getMaskedImage ?e) False = (?mi, Inr True)"
    using ampBody_good[of ?a0 1 1 exImage exNumpy "getDetector ?e" False]
    by (simp add: fitsIn_def)
  have h4: "take 3 (getLinearityCoeffs ?a1) = [1, 5, 1]" by simp
  have h5: "(5::real) \<noteq> 0" by simp
  show ?thesis
    using run_error_keeps_earlier_corrections[OF h1 h2 h3 h4 h5]
    by (simp add: linearizeView_def FootprintSet_def inBox_def linearizePixel_def exNumpy_def)
qed

text \<open>
  C1, amended. For a detector with at least one amplifier, all of type PROPORTIONAL with
  coefficients (s, 0, t), s non-zero, t positive, and boxes inside the image, \<^verbatim>\<open>run\<close>
  returns normally. A pixel that lies in the box of exactly one amplifier ends with the
  value numpy computes for \<^verbatim>\<open>v * (1.0 + s*v)\<close> from its value v, in three operations;
  that is v * (1 + s * v) itself when each of the three is exact at this pixel. SUSPECT is
  added to the pixel's mask when v > t and its mask is unchanged when v \<le> t (or v is
  NaN). A pixel in no amplifier's box, and the variance plane, are left as they were.
\<close>

theorem run_proportional_pixels:
  assumes "amps (getDetector e) \<noteq> []"
    and "\<forall>a \<in> set (amps (getDetector e)).
           getLinearityType a = ''PROPORTIONAL'' \<and>
           take 3 (getLinearityCoeffs a) = [s, 0, t] \<and>
           fitsIn (getBBox a) (miBBox (getMaskedImage e))"
    and "s \<noteq> 0" and "0 < t"
  shows "snd (run np e) = Inr [LogInfoApplied (getId (getDetector e))] \<and>
         getVariance (getMaskedImage (fst (run np e))) = getVariance (getMaskedImage e) \<and>
         (length (filter (\<lambda>a. inBox (getBBox a) p) (amps (getDetector e))) = 1 \<longrightarrow>
            getImage (getMaskedImage (fst (run np e))) p =
              imul np (getImage (getMaskedImage e) p)
                (addScalar np 1 (mulScalar np s (getImage (getMaskedImage e) p))) \<and>
            getMask (getMaskedImage (fst (run np e))) p =
              (if aboveThreshold t (getImage (getMaskedImage e) p)
               then insert ''SUSPECT'' (getMask (getMaskedImage e) p)
               else getMask (getMaskedImage e) p) \<and>
            (getImage (getMaskedImage e) p = Fin v \<longrightarrow>
               getMask (getMaskedImage (fst (run np e))) p =
                 (if t < v then insert ''SUSPECT'' (getMask (getMaskedImage e) p)
                  else getMask (getMaskedImage e) p) \<and>
               (mulScalar np s (Fin v) = Fin (s * v) \<and>
                addScalar np 1 (Fin (s * v)) = Fin (1 + s * v) \<and>
                imul np (Fin v) (Fin (1 + s * v)) = Fin (v * (1 + s * v)) \<longrightarrow>
                  getImage (getMaskedImage (fst (run np e))) p = Fin (v * (1 + s * v)))) \<and>
            (getImage (getMaskedImage e) p = NaN \<longrightarrow>
               getMask (getMaskedImage (fst (run np e))) p = getMask (getMaskedImage e) p)) \<and>
         ((\<forall>a \<in> set (amps (getDetector e)). \<not> inBox (getBBox a) p) \<longrightarrow>
            getImage (getMaskedImage (fst (run np e))) p = getImage (getMaskedImage e) p \<and>
            getMask (getMaskedImage (fst (run np e))) p = getMask (getMaskedImage e) p)"
proof -
  let ?d = "getDetector e"
  let ?mi = "getMaskedImage e"
  let ?r = "ampLoop np ?d (amps ?d) ?mi False"
  let ?one = "length (filter (\<lambda>a. inBox (getBBox a) p) (amps ?d)) = 1"
  obtain a rest where ar: "amps ?d = a # rest" using assms(1) by (cases "amps ?d") auto
  have a: "getLinearityType a = ''PROPORTIONAL''" "take 3 (getLinearityCoeffs a) = [s, 0, t]"
    using assms(2) ar by simp_all
  have "3 \<le> length (getLinearityCoeffs a)" using take3_cases[OF a(2)] by simp
  then have dc: "doCorrect ?d = Inr True" using ar a(1) by (simp add: doCorrect_def)
  have good: "\<forall>a \<in> set (amps ?d). take 3 (getLinearityCoeffs a) = [s, 0, t] \<and>
                fitsIn (getBBox a) (miBBox ?mi)"
    using assms(2) by simp
  note lg = ampLoop_good[OF assms(3,4) good, of np ?d False p]
  note fr = ampLoop_frame[of np ?d "amps ?d" ?mi False p]
  have sndr: "snd ?r = Inr True" using lg assms(1) by simp
  have run_eq: "run np e = (e\<lparr>getMaskedImage := fst ?r\<rparr>, Inr [LogInfoApplied (getId ?d)])"
    using dc sndr by (cases ?r) (simp add: run_def)
  have mi: "getMaskedImage (fst (run np e)) = fst ?r" using run_eq by simp
  have c1: "snd (run np e) = Inr [LogInfoApplied (getId ?d)]" using run_eq by simp
  have c2: "getVariance (getMaskedImage (fst (run np e))) = getVariance ?mi"
    using fr mi by simp
  have img: "getImage (getMaskedImage (fst (run np e))) p =
               imul np (getImage ?mi p) (addScalar np 1 (mulScalar np s (getImage ?mi p)))"
    and msk: "getMask (getMaskedImage (fst (run np e))) p =
               (if aboveThreshold t (getImage ?mi p) then insert ''SUSPECT'' (getMask ?mi p)
                else getMask ?mi p)"
    if ?one
    using lg that mi by (simp_all add: linearizePixel_def)
  have fin_mask: "getMask (getMaskedImage (fst (run np e))) p =
              (if t < v then insert ''SUSPECT'' (getMask ?mi p) else getMask ?mi p)"
    if ?one "getImage ?mi p = Fin v"
    using msk[OF that(1)] that(2) by simp
  have fin_exact: "getImage (getMaskedImage (fst (run np e))) p = Fin (v * (1 + s * v))"
    if ?one "getImage ?mi p = Fin v" "mulScalar np s (Fin v) = Fin (s * v)"
      "addScalar np 1 (Fin (s * v)) = Fin (1 + s * v)"
      "imul np (Fin v) (Fin (1 + s * v)) = Fin (v * (1 + s * v))"
    using img[OF that(1)] that(2-5) by simp
  have nan_mask: "getMask (getMaskedImage (fst (run np e))) p = getMask ?mi p"
    if ?one "getImage ?mi p = NaN"
    using msk[OF that(1)] that(2) by simp
  have c5: "getImage (getMaskedImage (fst (run np e))) p = getImage ?mi p \<and>
            getMask (getMaskedImage (fst (run np e))) p = getMask ?mi p"
    if "\<forall>a \<in> set (amps ?d). \<not> inBox (getBBox a) p"
    using fr that mi by simp
  show ?thesis using c1 c2 img msk fin_mask fin_exact nan_mask c5 by blast
qed

theorem run_proportional_pixels_witness:
  "snd (run exNumpy (exExposure [exAmp ''A0'' 0 ''PROPORTIONAL'' [1, 0, 1],
                         exAmp ''A1'' 1 ''PROPORTIONAL'' [1, 0, 1, 4]])) = Inr [LogInfoApplied 7] \<and>
   getImage (getMaskedImage (fst (run exNumpy (exExposure [exAmp ''A0'' 0 ''PROPORTIONAL'' [1, 0, 1],
                         exAmp ''A1'' 1 ''PROPORTIONAL'' [1, 0, 1, 4]])))) (0, 0) = Fin 6 \<and>
   getMask (getMaskedImage (fst (run exNumpy (exExposure [exAmp ''A0'' 0 ''PROPORTIONAL'' [1, 0, 1],
                         exAmp ''A1'' 1 ''PROPORTIONAL'' [1, 0, 1, 4]])))) (0, 0) = {''SUSPECT''} \<and>
   getImage (getMaskedImage (fst (run exNumpy (exExposure [exAmp ''A0'' 0 ''PROPORTIONAL'' [1, 0, 1],
                         exAmp ''A1'' 1 ''PROPORTIONAL'' [1, 0, 1, 4]])))) (1, 0) = Fin 2 \<and>
   getMask (getMaskedImage (fst (run exNumpy (exExposure [exAmp ''A0'' 0 ''PROPORTIONAL'' [1, 0, 1],
                         exAmp ''A1'' 1 ''PROPORTIONAL'' [1, 0, 1, 4]])))) (1, 0) = {}"
proof -
  let ?e = "exExposure [exAmp ''A0'' 0 ''PROPORTIONAL'' [1, 0, 1],
                        exAmp ''A1'' 1 ''PROPORTIONAL'' [1, 0, 1, 4]]"
  have h1: "amps (getDetector ?e) \<noteq> []" by simp
  have h2: "\<forall>a \<in> set (amps (getDetector ?e)).
              getLinearityType a = ''PROPORTIONAL'' \<and>
              take 3 (getLinearityCoeffs a) = [1, 0, 1] \<and>
              fitsIn (getBBox a) (miBBox (getMaskedImage ?e))"
    by (simp add: fitsIn_def)
  have h3: "(1::real) \<noteq> 0" and h4: "(0::real) < 1" by simp_all
  show ?thesis
    using run_proportional_pixels[OF h1 h2 h3 h4, of exNumpy "(0, 0)" 2]
          run_proportional_pixels[OF h1 h2 h3 h4, of exNumpy "(1, 0)" 1]
    by (simp add: inBox_def exNumpy_def)
qed

text \<open>
  C1 as stated fails: the sample image has two pixels and the detector one amplifier, of
  type PROPORTIONAL with coefficients (1, 0, 1), whose box holds the pixel (0, 0) only.
  The pixel (1, 0) of the image has the value 1 and keeps it, where the claim asks for
  1 * (1 + 1 * 1).
\<close>

theorem run_proportional_counterexample:
  "amps (getDetector (exExposure [exAmp ''A0'' 0 ''PROPORTIONAL'' [1, 0, 1]])) =
     [exAmp ''A0'' 0 ''PROPORTIONAL'' [1, 0, 1]] \<and>
   inBox (miBBox (getMaskedImage (exExposure [exAmp ''A0'' 0 ''PROPORTIONAL'' [1, 0, 1]]))) (1, 0) \<and>
   getImage (getMaskedImage (exExposure [exAmp ''A0'' 0 ''PROPORTIONAL'' [1, 0, 1]])) (1, 0) = Fin 1 \<and>
   snd (run exNumpy (exExposure [exAmp ''A0'' 0 ''PROPORTIONAL'' [1, 0, 1]])) = Inr [LogInfoApplied 7] \<and>
   getImage (getMaskedImage (fst (run exNumpy (exExposure [exAmp ''A0'' 0 ''PROPORTIONAL'' [1, 0, 1]]))))
     (1, 0) \<noteq> Fin (1 * (1 + 1 * 1))"
  by (simp add: run_single_sample linearizeView_def FootprintSet_def inBox_def)

section \<open>The claims about IsrTask\<close>

text \<open>
  C2. \<^verbatim>\<open>maskAndInterpNan\<close> stores the count of unmasked NaN pixels under NUMNANS, and
  ends in the RuntimeError exactly when that count is not zero. The only calls it makes
  are \<^verbatim>\<open>addMaskPlane\<close> and the counter's \<^verbatim>\<open>apply\<close>: the defect search and the
  interpolation under \<^verbatim>\<open>nnans > 0\<close> never run, whatever the count.
\<close>

theorem maskAndInterpNan_outcome:
  "metadata (fst (fst (maskAndInterpNan isr config self exposure))) ''NUMNANS'' =
     Some (int (getNpix (getMaskedImage exposure))) \<and>
   snd (maskAndInterpNan isr config self exposure) =
     (if getNpix (getMaskedImage exposure) = 0 then Inr ()
      else Inl (RuntimeError (UnmaskedNaNs (int (getNpix (getMaskedImage exposure)))))) \<and>
   calls (fst (fst (maskAndInterpNan isr config self exposure))) =
     calls self @ [MaskAddMaskPlane ''UNMASKEDNAN'', UnmaskedNanCounterApply] \<and>
   snd (fst (maskAndInterpNan isr config self exposure)) =
     exposure\<lparr>getMaskedImage := isr UnmaskedNanCounterApply (getMaskedImage exposure)\<rparr>"
proof (cases "getNpix (getMaskedImage exposure) = 0")
  case True
  then have "\<not> int (getNpix (getMaskedImage exposure)) > 0" by simp
  with True show ?thesis
    by (simp add: maskAndInterpNan_def addMaskPlane_def callExt_def Let_def)
next
  case False
  then have "\<not> int (getNpix (getMaskedImage exposure)) = 0" by simp
  with False show ?thesis
    by (simp add: maskAndInterpNan_def addMaskPlane_def callExt_def Let_def)
qed

theorem maskAndInterpNan_outcome_witness:
  "getNpix exNanImage = 1 \<and>
   metadata (fst (fst (maskAndInterpNan exIsr exConfig exTask
      \<lparr>getMaskedImage = exNanImage, getDetector = \<lparr>getId = 7, amps = []\<rparr>\<rparr>))) ''NUMNANS'' = Some 1 \<and>
   snd (maskAndInterpNan exIsr exConfig exTask
      \<lparr>getMaskedImage = exNanImage, getDetector = \<lparr>getId = 7, amps = []\<rparr>\<rparr>) =
     Inl (RuntimeError (UnmaskedNaNs 1)) \<and>
   getNpix exImage = 0 \<and>
   snd (maskAndInterpNan exIsr exConfig exTask
      \<lparr>getMaskedImage = exImage, getDetector = \<lparr>getId = 7, amps = []\<rparr>\<rparr>) = Inr () \<and>
   calls (fst (fst (maskAndInterpNan exIsr exConfig exTask
      \<lparr>getMaskedImage = exImage, getDetector = \<lparr>getId = 7, amps = []\<rparr>\<rparr>))) =
     [MaskAddMaskPlane ''UNMASKEDNAN'', UnmaskedNanCounterApply]"
proof -
  have n1: "getNpix exNanImage = 1"
    by (simp add: getNpix_def unmaskedNan_def exNanImage_def pixelsOf_sample)
  have n0: "getNpix exImage = 0"
    by (simp add: getNpix_def unmaskedNan_def pixelsOf_sample)
  show ?thesis
    using maskAndInterpNan_outcome[of exIsr exConfig exTask
            "\<lparr>getMaskedImage = exNanImage, getDetector = \<lparr>getId = 7, amps = []\<rparr>\<rparr>"]
          maskAndInterpNan_outcome[of exIsr exConfig exTask
            "\<lparr>getMaskedImage = exImage, getDetector = \<lparr>getId = 7, amps = []\<rparr>\<rparr>"]
          n1 n0
    by (simp add: exTask_def)
qed

text \<open>
  C3. Neither method reaches the external routine: \<^verbatim>\<open>biasCorrection\<close> stops at the
  unbound name \<^verbatim>\<open>sensorRef\<close> and \<^verbatim>\<open>updateVariance\<close> at the unbound name
  \<^verbatim>\<open>ccdExp\<close>, for every exposure, data handle and detector; the exposure is not
  touched.
\<close>

theorem biasCorrection_updateVariance_NameError:
  "biasCorrection isr self exposure dataRef =
     ((self, exposure), Inl (NameError ''sensorRef'')) \<and>
   updateVariance isr self exposure ccd =
     ((self, exposure), Inl (NameError ''ccdExp''))"
  by (simp add: biasCorrection_def updateVariance_def lookupName_def module_globals_def)

text \<open>
  C7. Given a detector object that is not an Amp, \<^verbatim>\<open>saturationDetection\<close>,
  \<^verbatim>\<open>saturationCorrection\<close> and \<^verbatim>\<open>overscanCorrection\<close> raise the RuntimeError and leave
  the task and the exposure as they were. Given an Amp, the first two call their external
  routine and return; the third does so when the bias section fits in the image, and
  never raises that RuntimeError.
\<close>

theorem amp_only_helpers:
  "(\<not> checkIsAmp det \<longrightarrow>
      saturationDetection isr config self exposure det =
        ((self, exposure), Inl (RuntimeError MustBeExecutedOnAmp)) \<and>
      saturationCorrection isr config self exposure det =
        ((self, exposure), Inl (RuntimeError MustBeExecutedOnAmp)) \<and>
      overscanCorrection isr config self exposure det =
        ((self, exposure), Inl (RuntimeError MustBeExecutedOnAmp))) \<and>
   (checkIsAmp det \<longrightarrow>
      saturationDetection isr config self exposure det =
        (callExt isr (IsrMakeThresholdMask (getSaturationLevel (getElectronicParams det)) 0
                        (saturatedMaskName config)) (self, exposure), Inr ()) \<and>
      saturationCorrection isr config self exposure det =
        (callExt isr (IsrSaturationCorrection (getSaturationLevel (getElectronicParams det))
                        (fwhm config) (growSaturationFootprintSize config)
                        (saturatedMaskName config)) (self, exposure), Inr ()) \<and>
      overscanCorrection isr config self exposure det =
        (if fitsIn (getDiskBiasSec det) (miBBox (getMaskedImage exposure))
         then (callExt isr (IsrOverscanCorrection (getDiskBiasSec det) (overscanFitType config)
                              (overscanPolyOrder config)) (self, exposure), Inr ())
         else ((self, exposure), Inl LengthError)) \<and>
      snd (overscanCorrection isr config self exposure det) \<noteq>
        Inl (RuntimeError MustBeExecutedOnAmp))"
proof (cases "checkIsAmp det")
  case True
  then show ?thesis
    by (simp add: saturationDetection_def saturationCorrection_def overscanCorrection_def
          Let_def)
next
  case False
  then show ?thesis
    by (simp add: saturationDetection_def saturationCorrection_def overscanCorrection_def)
qed

theorem amp_only_helpers_witness:
  "saturationDetection exIsr exConfig exTask (exExposure []) (exCgDetector CcdClass) =
     ((exTask, exExposure []), Inl (RuntimeError MustBeExecutedOnAmp)) \<and>
   overscanCorrection exIsr exConfig exTask (exExposure []) (exCgDetector CcdClass) =
     ((exTask, exExposure []), Inl (RuntimeError MustBeExecutedOnAmp)) \<and>
   saturationCorrection exIsr exConfig exTask (exExposure []) (exCgDetector RaftClass) =
     ((exTask, exExposure []), Inl (RuntimeError MustBeExecutedOnAmp)) \<and>
   snd (saturationDetection exIsr exConfig exTask (exExposure []) (exCgDetector AmpClass)) =
     Inr () \<and>
   calls (fst (fst (saturationDetection exIsr exConfig exTask (exExposure [])
                      (exCgDetector AmpClass)))) = [IsrMakeThresholdMask 2 0 ''SAT''] \<and>
   getMask (getMaskedImage (snd (fst (saturationDetection exIsr exConfig exTask (exExposure [])
                      (exCgDetector AmpClass))))) (0, 0) = {''SAT''} \<and>
   getMask (getMaskedImage (snd (fst (saturationDetection exIsr exConfig exTask (exExposure [])
                      (exCgDetector AmpClass))))) (1, 0) = {} \<and>
   snd (overscanCorrection exIsr exConfig exTask (exExposure []) (exCgDetector AmpClass)) =
     Inr ()"
  using amp_only_helpers[of "exCgDetector CcdClass" exIsr exConfig exTask "exExposure []"]
        amp_only_helpers[of "exCgDetector RaftClass" exIsr exConfig exTask "exExposure []"]
        amp_only_helpers[of "exCgDetector AmpClass" exIsr exConfig exTask "exExposure []"]
  by (simp add: checkIsAmp_def exCgDetector_def exConfig_def exTask_def callExt_def exIsr_def
        fitsIn_def)

end
